theory Spec2Isabelle
  imports Complex_Main "HOL-Library.Word"
begin

section \<open>The cleaning endpoint of \<open>app.py\<close>\<close>

text \<open>
  The development embeds \<open>limpiar_dataset_multiple\<close> (\<open>POST /api/limpiezas\<close>) and the
  file-reading part of \<open>create_dataset\<close> (\<open>POST /api/datasets\<close>).

  The program works on a pandas \<open>DataFrame\<close>. The frame is modelled row-wise: an
  ordered list of named, typed columns and a list of rows, every row holding one cell
  per column. A cell is a missing value (\<open>NaN\<close>), a number, a string or a boolean.
  A number cell holds the exact value of its \<open>int64\<close> or finite \<open>float64\<close> content, as a
  rational. What pandas and numpy compute from such values in 64-bit floating point (the
  quantiles, the bounds, the comparisons against them) is not fixed here: those operations
  are parameters of the model, and every general theorem holds for each of them.
  The column kinds are the ones \<open>pandas.read_csv\<close> produces: \<open>object\<close> (text),
  \<open>int64\<close>, \<open>float64\<close> and \<open>bool\<close>.
\<close>

subsection \<open>Frames\<close>

datatype cell = Null | Num rat | Str string | Bln bool

datatype dtype = Object | Int64 | Float64 | Bool

record frame =
  columns :: "(string \<times> dtype) list"
  rows :: "cell list list"

text \<open>\<open>pd.DataFrame()\<close>: no columns, no rows.\<close>

definition DataFrame :: frame where
  "DataFrame = \<lparr>columns = [], rows = []\<rparr>"

text \<open>\<open>len(df)\<close> is the number of rows; \<open>df.empty\<close> holds when either axis has length 0.\<close>

definition len :: "frame \<Rightarrow> nat" where
  "len f = length (rows f)"

definition df_empty :: "frame \<Rightarrow> bool" where
  "df_empty f = (columns f = [] \<or> rows f = [])"

text \<open>The invariant of a frame: every row has one cell per column.\<close>

definition wf_frame :: "frame \<Rightarrow> bool" where
  "wf_frame f = list_all (\<lambda>r. length r = length (columns f)) (rows f)"

subsection \<open>Duplicates\<close>

text \<open>
  \<open>df.duplicated()\<close> marks a row when an equal row stands earlier in the frame (the
  first occurrence is not marked; \<open>NaN\<close> cells compare equal to each other here).
  \<open>df[mask]\<close> keeps the marked rows in order, \<open>df.drop_duplicates()\<close> keeps the others.
\<close>

fun duplicated_from :: "cell list list \<Rightarrow> cell list list \<Rightarrow> bool list" where
  "duplicated_from seen [] = []"
| "duplicated_from seen (r # rs) = (r \<in> set seen) # duplicated_from (r # seen) rs"

definition duplicated :: "frame \<Rightarrow> bool list" where
  "duplicated f = duplicated_from [] (rows f)"

definition select_rows :: "frame \<Rightarrow> bool list \<Rightarrow> frame" where
  "select_rows f marks = f\<lparr>rows := map fst (filter snd (zip (rows f) marks))\<rparr>"

definition drop_duplicates :: "frame \<Rightarrow> frame" where
  "drop_duplicates f = select_rows f (map Not (duplicated f))"

subsection \<open>Missing values\<close>

text \<open>\<open>df.isnull().sum().sum()\<close>: the number of missing cells of the frame.\<close>

definition isnull_sum :: "frame \<Rightarrow> nat" where
  "isnull_sum f = sum_list (map (\<lambda>r. length (filter (\<lambda>c. c = Null) r)) (rows f))"

text \<open>\<open>df[col] = df[col].fillna(v)\<close> for the column at position \<open>j\<close>.\<close>

definition fillna_column :: "nat \<Rightarrow> cell \<Rightarrow> frame \<Rightarrow> frame" where
  "fillna_column j v f =
     f\<lparr>rows := map (\<lambda>r. if j < length r \<and> r ! j = Null then r[j := v] else r) (rows f)\<rparr>"

text \<open>
  The loop \<open>for col in df.columns\<close> of the \<open>nulos\<close> branch: a text column is filled
  with \<open>"N/A"\<close>, every other column with \<open>0\<close>.
\<close>

definition fill_value :: "dtype \<Rightarrow> cell" where
  "fill_value d = (if d = Object then Str ''N/A'' else Num 0)"

fun fillna_loop :: "nat \<Rightarrow> (string \<times> dtype) list \<Rightarrow> frame \<Rightarrow> frame" where
  "fillna_loop j [] f = f"
| "fillna_loop j (col # cols) f = fillna_loop (Suc j) cols (fillna_column j (fill_value (snd col)) f)"

definition fillna_all :: "frame \<Rightarrow> frame" where
  "fillna_all f = fillna_loop 0 (columns f) f"

subsection \<open>Outliers\<close>

datatype exn =
    KeyError string
  | TypeError string
  | UnicodeDecodeError
  | ParserError
  | APIError
  | StorageException

definition is_numeric :: "dtype \<Rightarrow> bool" where
  "is_numeric d = (d = Int64 \<or> d = Float64)"

text \<open>\<open>df[col]\<close>: the position of the first column of that name, \<open>KeyError\<close> if none.\<close>

fun column_index :: "(string \<times> dtype) list \<Rightarrow> string \<Rightarrow> nat option" where
  "column_index [] col = None"
| "column_index (c # cs) col =
     (if fst c = col then Some 0 else map_option Suc (column_index cs col))"

definition column_cells :: "frame \<Rightarrow> nat \<Rightarrow> cell list" where
  "column_cells f j = map (\<lambda>r. if j < length r then r ! j else Null) (rows f)"

fun numbers :: "cell list \<Rightarrow> rat list" where
  "numbers [] = []"
| "numbers (Num v # cs) = v # numbers cs"
| "numbers (c # cs) = numbers cs"

text \<open>
  The floating-point operations of lines 181 to 185, with \<open>'f\<close> the values a \<open>float64\<close>
  computation yields (\<open>NaN\<close> and the infinities among them). \<open>cuantil d vs q\<close> is
  \<open>Series.quantile(q)\<close> on a column of kind \<open>d\<close> whose non-missing numbers are \<open>vs\<close>;
  \<open>resta\<close>, \<open>suma\<close> are \<open>-\<close> and \<open>+\<close> on two such values; \<open>producto\<close> multiplies
  the threshold of the request with one; \<open>mayor_igual d v x\<close> and \<open>menor_igual d v x\<close> are
  \<open>v >= x\<close> and \<open>v <= x\<close> for a cell \<open>v\<close> of a column of kind \<open>d\<close>.
\<close>

record 'f aritmetica =
  cuantil :: "dtype \<Rightarrow> rat list \<Rightarrow> rat \<Rightarrow> 'f"
  resta :: "'f \<Rightarrow> 'f \<Rightarrow> 'f"
  suma :: "'f \<Rightarrow> 'f \<Rightarrow> 'f"
  producto :: "rat \<Rightarrow> 'f \<Rightarrow> 'f"
  mayor_igual :: "dtype \<Rightarrow> rat \<Rightarrow> 'f \<Rightarrow> bool"
  menor_igual :: "dtype \<Rightarrow> rat \<Rightarrow> 'f \<Rightarrow> bool"

text \<open>
  \<open>(df[col] >= lower) & (df[col] <= upper)\<close> on one cell: a comparison with a missing
  cell is false.
\<close>

fun in_bounds :: "'f aritmetica \<Rightarrow> dtype \<Rightarrow> 'f \<Rightarrow> 'f \<Rightarrow> cell \<Rightarrow> bool" where
  "in_bounds ar d lower upper (Num v) = (mayor_igual ar d v lower \<and> menor_igual ar d v upper)"
| "in_bounds ar d lower upper c = False"

text \<open>
  One pass of the loop \<open>for col in columnas\<close>. A column that does not exist raises
  \<open>KeyError\<close> at \<open>df[col]\<close>. The quantile of a column that is not numeric raises
  \<open>TypeError\<close> as soon as the column holds a value: numpy interpolates between two
  values of the column by subtracting them, which neither strings nor booleans support.
  When the column holds no value, pandas returns \<open>NaN\<close> without touching the column and
  nothing is raised. The failure carries the frame as it stands when the exception is
  raised.
\<close>

definition outliers_column ::
  "'f aritmetica \<Rightarrow> rat \<Rightarrow> frame \<Rightarrow> string \<Rightarrow> (exn \<times> frame) + frame" where
  "outliers_column ar umbral f col =
     (case column_index (columns f) col of
        None \<Rightarrow> Inl (KeyError col, f)
      | Some j \<Rightarrow>
          let cells = column_cells f j;
              d = snd (columns f ! j)
          in
          if \<not> is_numeric d \<and> filter (\<lambda>c. c \<noteq> Null) cells \<noteq> []
          then Inl (TypeError col, f)
          else
            let Q1 = cuantil ar d (numbers cells) (1 / 4);
                Q3 = cuantil ar d (numbers cells) (3 / 4);
                IQR = resta ar Q3 Q1;
                lower = resta ar Q1 (producto ar umbral IQR);
                upper = suma ar Q3 (producto ar umbral IQR)
            in Inr (select_rows f (map (in_bounds ar d lower upper) cells)))"

fun outliers_loop ::
  "'f aritmetica \<Rightarrow> rat \<Rightarrow> string list \<Rightarrow> frame \<Rightarrow> (exn \<times> frame) + frame" where
  "outliers_loop ar umbral [] f = Inr f"
| "outliers_loop ar umbral (col # cols) f =
     (case outliers_column ar umbral f col of
        Inl e \<Rightarrow> Inl e
      | Inr f' \<Rightarrow> outliers_loop ar umbral cols f')"

text \<open>\<open>list(df.select_dtypes(include=['float64', 'int64']).columns)\<close>\<close>

definition select_dtypes_numeric :: "frame \<Rightarrow> string list" where
  "select_dtypes_numeric f = map fst (filter (\<lambda>c. is_numeric (snd c)) (columns f))"

subsection \<open>The loop over the requested operations\<close>

text \<open>
  An entry of \<open>tipos_limpieza\<close>: its \<open>tipo\<close> (absent is \<open>None\<close>) and its \<open>parametros\<close>,
  of which the program reads \<open>columnas\<close> and \<open>umbral\<close>.
\<close>

record parametros =
  columnas :: "string list option"
  umbral :: "rat option"

record limpieza =
  tipo :: "string option"
  params :: parametros

record operacion =
  op_tipo :: "string option"
  op_parametros :: parametros
  afectados :: int

text \<open>The local variables of the loop.\<close>

record estado =
  df :: frame
  operaciones_realizadas :: "operacion list"
  total_afectados :: int
  duplicados_guardados :: frame

definition registrar :: "limpieza \<Rightarrow> int \<Rightarrow> estado \<Rightarrow> estado" where
  "registrar l n s =
     s\<lparr>operaciones_realizadas :=
          operaciones_realizadas s @ [\<lparr>op_tipo = tipo l, op_parametros = params l, afectados = n\<rparr>],
       total_afectados := total_afectados s + n\<rparr>"

text \<open>
  One iteration (lines 156 to 193). An exception leaves the iteration before the
  operation is recorded; the failure carries the local variables at that moment.
\<close>

definition aplicar ::
  "'f aritmetica \<Rightarrow> estado \<Rightarrow> limpieza \<Rightarrow> (exn \<times> estado) + estado" where
  "aplicar ar s l =
     (if tipo l = Some ''duplicados'' then
        let antes = len (df s);
            s1 = s\<lparr>duplicados_guardados := select_rows (df s) (duplicated (df s))\<rparr>;
            s2 = s1\<lparr>df := drop_duplicates (df s1)\<rparr>
        in Inr (registrar l (int antes - int (len (df s2))) s2)
      else if tipo l = Some ''nulos'' then
        let nulos_antes = isnull_sum (df s);
            s1 = s\<lparr>df := fillna_all (df s)\<rparr>
        in Inr (registrar l (int nulos_antes) s1)
      else if tipo l = Some ''outliers'' then
        let cols = (case columnas (params l) of
                      Some cs \<Rightarrow> cs
                    | None \<Rightarrow> select_dtypes_numeric (df s));
            u = (case umbral (params l) of Some u \<Rightarrow> u | None \<Rightarrow> 3 / 2);
            antes = len (df s)
        in (case outliers_loop ar u cols (df s) of
              Inl (e, f) \<Rightarrow> Inl (e, s\<lparr>df := f\<rparr>)
            | Inr f \<Rightarrow> Inr (registrar l (int antes - int (len f)) (s\<lparr>df := f\<rparr>)))
      else Inr (registrar l 0 s))"

fun aplicar_limpiezas ::
  "'f aritmetica \<Rightarrow> estado \<Rightarrow> limpieza list \<Rightarrow> (exn \<times> estado) + estado" where
  "aplicar_limpiezas ar s [] = Inr s"
| "aplicar_limpiezas ar s (l # ls) =
     (case aplicar ar s l of
        Inl e \<Rightarrow> Inl e
      | Inr s' \<Rightarrow> aplicar_limpiezas ar s' ls)"

text \<open>The variables as lines 151 to 153 initialise them.\<close>

definition inicial :: "frame \<Rightarrow> estado" where
  "inicial f =
     \<lparr>df = f, operaciones_realizadas = [], total_afectados = 0, duplicados_guardados = DataFrame\<rparr>"

subsection \<open>The services around the loop\<close>

text \<open>
  The Supabase client (catalog tables and blob storage) and the readers and writers of
  pandas are libraries outside the repository. They are parameters of the model: a record
  of functions, one per call the program makes, each returning the exception it raises
  or its result. Nothing is assumed about them. The temporary files of the program are
  not modelled: a file is the byte payload written to it.
\<close>

type_synonym bytes = "8 word list"

datatype encoding = UTF8 | Latin1

record fila_duplicados =
  dup_dataset_id :: int
  ruta_duplicados :: string
  num_registros :: nat

record fila_limpieza =
  limp_dataset_id :: int
  tipo_limpieza :: string
  parametros_usados :: "operacion list"
  num_registros_afectados :: int
  ruta_dataset_limpio :: string
  limp_ruta_duplicados :: "string option"
  limp_estado :: string

record servicios =
  select_dataset :: "int \<Rightarrow> exn + string option"
  download :: "string \<Rightarrow> exn + bytes"
  read_csv :: "bool \<Rightarrow> encoding \<Rightarrow> bytes \<Rightarrow> exn + frame"
  read_json :: "bytes \<Rightarrow> exn + frame"
  to_csv :: "frame \<Rightarrow> bytes"
  upload :: "string \<Rightarrow> bytes \<Rightarrow> exn option"
  insert_duplicados :: "fila_duplicados \<Rightarrow> exn option"
  insert_limpieza :: "fila_limpieza \<Rightarrow> exn + int option"
  get_public_url :: "string \<Rightarrow> string"

text \<open>
  \<open>select_dataset\<close> is the query of line 132 and yields the \<open>ruta_almacenamiento\<close> of
  the dataset (\<open>None\<close>: no data). The first argument of \<open>read_csv\<close> says whether
  \<open>on_bad_lines='skip'\<close> is passed. Every call issued to Supabase is logged, in order,
  whether it succeeds or raises.
\<close>

datatype call =
    Select int
  | Download string
  | Upload string bytes
  | InsertDuplicados fila_duplicados
  | InsertLimpieza fila_limpieza

record resumen =
  operaciones :: "operacion list"
  res_total_afectados :: int
  res_ruta_dataset_limpio :: string
  res_ruta_duplicados :: "string option"
  limpieza_id :: "int option"

datatype respuesta = Ok200 resumen | Error400 | Error404 | Error500 exn

record peticion =
  dataset_id :: "int option"
  tipos_limpieza :: "limpieza list"

subsection \<open>Reading the dataset\<close>

text \<open>
  Lines 146 to 149, and 51 to 54: \<open>read_csv\<close> with \<open>utf-8\<close>, and with \<open>latin-1\<close> when
  the first call raises \<open>UnicodeDecodeError\<close>. The second component lists the encodings
  tried, in order.
\<close>

definition leer_csv :: "servicios \<Rightarrow> bool \<Rightarrow> bytes \<Rightarrow> (exn + frame) \<times> encoding list" where
  "leer_csv sv skip raw =
     (if read_csv sv skip UTF8 raw = Inl UnicodeDecodeError
      then (read_csv sv skip Latin1 raw, [UTF8, Latin1])
      else (read_csv sv skip UTF8 raw, [UTF8]))"

definition endswith :: "string \<Rightarrow> string \<Rightarrow> bool" where
  "endswith s suf = (length suf \<le> length s \<and> drop (length s - length suf) s = suf)"

text \<open>
  Lines 50 to 58 of \<open>create_dataset\<close>: the outcome is a frame, an exception (answered
  with status 500 by the handler of line 109) or the answer 400 \<open>Formato no soportado\<close>.
\<close>

datatype carga = Cargado frame | Fallo exn | NoSoportado

definition leer_archivo :: "servicios \<Rightarrow> string \<Rightarrow> bytes \<Rightarrow> carga \<times> encoding list" where
  "leer_archivo sv filename raw =
     (if endswith filename ''.csv'' then
        (case leer_csv sv False raw of
           (Inl e, tried) \<Rightarrow> (Fallo e, tried)
         | (Inr f, tried) \<Rightarrow> (Cargado f, tried))
      else if endswith filename ''.json'' then
        (case read_json sv raw of
           Inl e \<Rightarrow> (Fallo e, [UTF8])
         | Inr f \<Rightarrow> (Cargado f, [UTF8]))
      else (NoSoportado, []))"

text \<open>Lines 132 to 149: the catalog query, the download and the parse.\<close>

definition obtener :: "servicios \<Rightarrow> int \<Rightarrow> (respuesta + string \<times> frame) \<times> call list" where
  "obtener sv i =
     (case select_dataset sv i of
        Inl e \<Rightarrow> (Inl (Error500 e), [Select i])
      | Inr None \<Rightarrow> (Inl Error404, [Select i])
      | Inr (Some ruta) \<Rightarrow>
          (case download sv ruta of
             Inl e \<Rightarrow> (Inl (Error500 e), [Select i, Download ruta])
           | Inr raw \<Rightarrow>
               (case fst (leer_csv sv True raw) of
                  Inl e \<Rightarrow> (Inl (Error500 e), [Select i, Download ruta])
                | Inr f \<Rightarrow> (Inr (ruta, f), [Select i, Download ruta]))))"

subsection \<open>Publishing and recording\<close>

text \<open>\<open>os.path.basename\<close>: what follows the last slash.\<close>

definition basename :: "string \<Rightarrow> string" where
  "basename p = rev (takeWhile (\<lambda>c. c \<noteq> CHR ''/'') (rev p))"

text \<open>Lines 209 to 228: the duplicates are stored and recorded unless the frame is empty.\<close>

definition guardar_duplicados ::
  "servicios \<Rightarrow> int \<Rightarrow> string \<Rightarrow> frame \<Rightarrow> (exn + string option) \<times> call list" where
  "guardar_duplicados sv i ruta dups =
     (if \<not> df_empty dups then
        let ruta_storage_dups = ''duplicates/'' @ ''duplicates_'' @ basename ruta;
            subida = Upload ruta_storage_dups (to_csv sv dups)
        in (case upload sv ruta_storage_dups (to_csv sv dups) of
              Some e \<Rightarrow> (Inl e, [subida])
            | None \<Rightarrow>
                let fila = \<lparr>dup_dataset_id = i, ruta_duplicados = ruta_storage_dups,
                            num_registros = len dups\<rparr>
                in (case insert_duplicados sv fila of
                      Some e \<Rightarrow> (Inl e, [subida, InsertDuplicados fila])
                    | None \<Rightarrow> (Inr (Some ruta_storage_dups), [subida, InsertDuplicados fila])))
      else (Inr None, []))"

text \<open>Lines 195 to 253.\<close>

definition publicar :: "servicios \<Rightarrow> int \<Rightarrow> string \<Rightarrow> estado \<Rightarrow> respuesta \<times> call list" where
  "publicar sv i ruta s =
     (let ruta_storage_clean = ''clean/'' @ ''clean_multi_'' @ basename ruta;
          subida = Upload ruta_storage_clean (to_csv sv (df s))
      in (case upload sv ruta_storage_clean (to_csv sv (df s)) of
            Some e \<Rightarrow> (Error500 e, [subida])
          | None \<Rightarrow>
              (case guardar_duplicados sv i ruta (duplicados_guardados s) of
                 (Inl e, tr) \<Rightarrow> (Error500 e, subida # tr)
               | (Inr ruta_storage_dups, tr) \<Rightarrow>
                   let fila = \<lparr>limp_dataset_id = i, tipo_limpieza = ''multiple'',
                               parametros_usados = operaciones_realizadas s,
                               num_registros_afectados = total_afectados s,
                               ruta_dataset_limpio = ruta_storage_clean,
                               limp_ruta_duplicados = ruta_storage_dups,
                               limp_estado = ''Completada''\<rparr>
                   in (case insert_limpieza sv fila of
                         Inl e \<Rightarrow> (Error500 e, subida # tr @ [InsertLimpieza fila])
                       | Inr lid \<Rightarrow>
                           (Ok200 \<lparr>operaciones = operaciones_realizadas s,
                                   res_total_afectados = total_afectados s,
                                   res_ruta_dataset_limpio = get_public_url sv ruta_storage_clean,
                                   res_ruta_duplicados = map_option (get_public_url sv) ruta_storage_dups,
                                   limpieza_id = lid\<rparr>,
                            subida # tr @ [InsertLimpieza fila])))))"

text \<open>The calls that store or record duplicates: an upload under \<open>duplicates/\<close>, an
  insertion into \<open>duplicados_datasets\<close>.\<close>

definition escribe_duplicados :: "call \<Rightarrow> bool" where
  "escribe_duplicados c =
     (case c of
        InsertDuplicados fila \<Rightarrow> True
      | Upload p b \<Rightarrow> take 11 p = ''duplicates/''
      | _ \<Rightarrow> False)"

subsection \<open>The endpoint\<close>

text \<open>
  \<open>limpiar_dataset_multiple\<close>, lines 123 to 259. \<open>not dataset_id\<close> holds for an absent
  identifier and for \<open>0\<close>. An exception raised anywhere is answered by the handler of
  line 255 with status 500; the local variables are dropped.
\<close>

definition limpiar_dataset_multiple ::
  "'f aritmetica \<Rightarrow> servicios \<Rightarrow> peticion \<Rightarrow> respuesta \<times> call list" where
  "limpiar_dataset_multiple ar sv r =
     (case dataset_id r of
        None \<Rightarrow> (Error400, [])
      | Some i \<Rightarrow>
          if i = 0 \<or> tipos_limpieza r = [] then (Error400, [])
          else
            (case obtener sv i of
               (Inl resp, tr) \<Rightarrow> (resp, tr)
             | (Inr (ruta, f), tr) \<Rightarrow>
                 (case aplicar_limpiezas ar (inicial f) (tipos_limpieza r) of
                    Inl (e, s) \<Rightarrow> (Error500 e, tr)
                  | Inr s \<Rightarrow>
                      (case publicar sv i ruta s of
                         (resp, tr') \<Rightarrow> (resp, tr @ tr')))))"

subsection \<open>Auxiliary functions of the proofs\<close>

text \<open>The rows \<open>drop_duplicates\<close> keeps, computed directly: the first occurrences.\<close>

fun keep_first :: "cell list list \<Rightarrow> cell list list \<Rightarrow> cell list list" where
  "keep_first seen [] = []"
| "keep_first seen (r # rs) =
     (if r \<in> set seen then keep_first seen rs else r # keep_first (r # seen) rs)"

text \<open>What the loop of the \<open>nulos\<close> branch does to one row.\<close>

fun fill_row :: "nat \<Rightarrow> (string \<times> dtype) list \<Rightarrow> cell list \<Rightarrow> cell list" where
  "fill_row j [] r = r"
| "fill_row j (col # cols) r =
     fill_row (Suc j) cols (if j < length r \<and> r ! j = Null then r[j := fill_value (snd col)] else r)"

text \<open>
  The duplicates side-table as the specification words it, for comparison with
  \<open>duplicados_guardados\<close>: the rows removed by every \<open>duplicados\<close> operation of the run,
  in removal order.
\<close>

fun spec_duplicates_side_table ::
  "'f aritmetica \<Rightarrow> estado \<Rightarrow> limpieza list \<Rightarrow> cell list list" where
  "spec_duplicates_side_table ar s [] = []"
| "spec_duplicates_side_table ar s (l # ls) =
     (case aplicar ar s l of
        Inl e \<Rightarrow> []
      | Inr s' \<Rightarrow>
          (if tipo l = Some ''duplicados''
           then rows (select_rows (df s) (duplicated (df s))) else [])
          @ spec_duplicates_side_table ar s' ls)"

subsection \<open>Concrete inputs\<close>

definition sin_parametros :: parametros where
  "sin_parametros = \<lparr>columnas = None, umbral = None\<rparr>"

definition op_duplicados :: limpieza where
  "op_duplicados = \<lparr>tipo = Some ''duplicados'', params = sin_parametros\<rparr>"

definition op_nulos :: limpieza where
  "op_nulos = \<lparr>tipo = Some ''nulos'', params = sin_parametros\<rparr>"

definition op_normalizar :: limpieza where
  "op_normalizar = \<lparr>tipo = Some ''normalizar'', params = sin_parametros\<rparr>"

text \<open>One numeric column \<open>x\<close> holding 1, 1, 0 and a missing value.\<close>

definition frame_x :: frame where
  "frame_x = \<lparr>columns = [(''x'', Float64)], rows = [[Num 1], [Num 1], [Num 0], [Null]]\<rparr>"

text \<open>A text column and a numeric column, with three missing cells.\<close>

definition frame_mixto :: frame where
  "frame_mixto =
     \<lparr>columns = [(''nombre'', Object), (''edad'', Float64)],
      rows = [[Str ''ana'', Num 30], [Null, Null], [Str ''luis'', Null]]\<rparr>"

text \<open>
  The arithmetic of the examples computes without rounding, \<open>NaN\<close> being \<open>None\<close>.
  \<open>cuantil_lineal\<close> is the linear interpolation \<open>Series.quantile\<close> does by default:
  with \<open>s\<close> the sorted values and \<open>h = (n - 1) * q\<close>, the result lies between
  \<open>s[floor h]\<close> and its successor, and is \<open>NaN\<close> on no values. The frames of the
  examples hold small integers, and every quantile, bound and product computed from them
  is a small dyadic number: 64-bit floating point computes the same values.
\<close>

definition cuantil_lineal :: "rat list \<Rightarrow> rat \<Rightarrow> rat option" where
  "cuantil_lineal vs q =
     (if vs = [] then None
      else let s = sort vs;
               h = of_nat (length s - 1) * q;
               lo = nat \<lfloor>h\<rfloor>;
               hi = min (Suc lo) (length s - 1)
           in Some (s ! lo + (s ! hi - s ! lo) * (h - of_nat lo)))"

definition exacta :: "rat option aritmetica" where
  "exacta =
     \<lparr>cuantil = (\<lambda>d vs q. cuantil_lineal vs q),
      resta = (\<lambda>x y. case (x, y) of (Some a, Some b) \<Rightarrow> Some (a - b) | _ \<Rightarrow> None),
      suma = (\<lambda>x y. case (x, y) of (Some a, Some b) \<Rightarrow> Some (a + b) | _ \<Rightarrow> None),
      producto = (\<lambda>u x. case x of Some a \<Rightarrow> Some (u * a) | None \<Rightarrow> None),
      mayor_igual = (\<lambda>d v x. case x of Some a \<Rightarrow> a \<le> v | None \<Rightarrow> False),
      menor_igual = (\<lambda>d v x. case x of Some a \<Rightarrow> v \<le> a | None \<Rightarrow> False)\<rparr>"

definition op_outliers :: "string list \<Rightarrow> limpieza" where
  "op_outliers cols =
     \<lparr>tipo = Some ''outliers'', params = \<lparr>columnas = Some cols, umbral = Some (3 / 2)\<rparr>\<rparr>"

text \<open>Two integer columns; the fourth row is far out in \<open>A\<close>.\<close>

definition frame_ab :: frame where
  "frame_ab =
     \<lparr>columns = [(''A'', Int64), (''B'', Int64)],
      rows = [[Num 0, Num 0], [Num 0, Num 0], [Num 0, Num 0], [Num 100, Num 4], [Num 0, Num 3]]\<rparr>"

text \<open>
  Services for the examples: the catalog knows the dataset 7, stored at
  \<open>datasets/datos.csv\<close>; a payload holding the byte \<open>0xFF\<close>, which no UTF-8 text
  contains, raises \<open>UnicodeDecodeError\<close> when read as UTF-8, and every other read yields
  \<open>frame_mixto\<close>; writes succeed.
\<close>

definition servicios_demo :: servicios where
  "servicios_demo =
     \<lparr>select_dataset = (\<lambda>i. if i = 7 then Inr (Some ''datasets/datos.csv'') else Inr None),
      download = (\<lambda>p. Inr [0x78]),
      read_csv = (\<lambda>skip enc raw.
         if enc = UTF8 \<and> 0xFF \<in> set raw then Inl UnicodeDecodeError else Inr frame_mixto),
      read_json = (\<lambda>raw. if 0xFF \<in> set raw then Inl UnicodeDecodeError else Inr frame_mixto),
      to_csv = (\<lambda>f. map (\<lambda>r. of_nat (length r)) (rows f)),
      upload = (\<lambda>p b. None),
      insert_duplicados = (\<lambda>fila. None),
      insert_limpieza = (\<lambda>fila. Inr (Some 1)),
      get_public_url = (\<lambda>p. ''https://storage/'' @ p)\<rparr>"



text \<open>The loop states after \<open>outliers\<close> on \<open>A\<close>, and then on \<open>B\<close>, from \<open>frame_ab\<close>.\<close>

definition estado_a :: estado where
  "estado_a =
     \<lparr>df = \<lparr>columns = [(''A'', Int64), (''B'', Int64)],
             rows = [[Num 0, Num 0], [Num 0, Num 0], [Num 0, Num 0], [Num 0, Num 3]]\<rparr>,
      operaciones_realizadas =
        [\<lparr>op_tipo = Some ''outliers'',
          op_parametros = \<lparr>columnas = Some [''A''], umbral = Some (3 / 2)\<rparr>, afectados = 1\<rparr>],
      total_afectados = 1,
      duplicados_guardados = DataFrame\<rparr>"

definition estado_ab :: estado where
  "estado_ab =
     \<lparr>df = \<lparr>columns = [(''A'', Int64), (''B'', Int64)],
             rows = [[Num 0, Num 0], [Num 0, Num 0], [Num 0, Num 0]]\<rparr>,
      operaciones_realizadas =
        [\<lparr>op_tipo = Some ''outliers'',
          op_parametros = \<lparr>columnas = Some [''A''], umbral = Some (3 / 2)\<rparr>, afectados = 1\<rparr>,
         \<lparr>op_tipo = Some ''outliers'',
          op_parametros = \<lparr>columnas = Some [''B''], umbral = Some (3 / 2)\<rparr>, afectados = 1\<rparr>],
      total_afectados = 2,
      duplicados_guardados = DataFrame\<rparr>"



section \<open>Properties\<close>

subsection \<open>Duplicates\<close>

lemma duplicated_from_cong:
  "set seen = set seen' \<Longrightarrow> duplicated_from seen rs = duplicated_from seen' rs"
  by (induction rs arbitrary: seen seen') auto

lemma kept_rows:
  "map fst (filter snd (zip rs (map Not (duplicated_from seen rs)))) = keep_first seen rs"
proof (induction rs arbitrary: seen)
  case Nil
  show ?case by simp
next
  case (Cons r rs)
  show ?case
  proof (cases "r \<in> set seen")
    case True
    then have "set (r # seen) = set seen" by auto
    then have "duplicated_from (r # seen) rs = duplicated_from seen rs"
      by (rule duplicated_from_cong)
    with True Cons show ?thesis by simp
  next
    case False
    with Cons show ?thesis by simp
  qed
qed

lemma keep_first_fresh:
  "duplicated_from seen (keep_first seen rs) = replicate (length (keep_first seen rs)) False"
  by (induction rs arbitrary: seen) auto

lemma rows_drop_duplicates: "rows (drop_duplicates f) = keep_first [] (rows f)"
  by (simp add: drop_duplicates_def select_rows_def duplicated_def kept_rows)

lemma duplicated_drop_duplicates:
  "duplicated (drop_duplicates f) = replicate (len (drop_duplicates f)) False"
  by (simp add: duplicated_def rows_drop_duplicates keep_first_fresh len_def)

lemma select_rows_none: "select_rows f (replicate (length (rows f)) False) = f\<lparr>rows := []\<rparr>"
proof -
  have "filter snd (zip xs (replicate (length xs) False)) = []" for xs :: "cell list list"
    by (induction xs) auto
  then show ?thesis by (simp add: select_rows_def)
qed

lemma select_rows_all: "select_rows f (replicate (length (rows f)) True) = f"
proof -
  have "map fst (filter snd (zip xs (replicate (length xs) True))) = xs" for xs :: "cell list list"
    by (induction xs) auto
  then show ?thesis by (simp add: select_rows_def)
qed

lemma drop_duplicates_idem: "drop_duplicates (drop_duplicates f) = drop_duplicates f"
proof -
  have "drop_duplicates (drop_duplicates f)
      = select_rows (drop_duplicates f) (replicate (length (rows (drop_duplicates f))) True)"
    by (simp add: drop_duplicates_def[of "drop_duplicates f"] duplicated_drop_duplicates len_def)
  then show ?thesis by (simp add: select_rows_all)
qed

lemma aplicar_duplicados:
  "aplicar ar s \<lparr>tipo = Some ''duplicados'', params = p\<rparr> =
     Inr (registrar \<lparr>tipo = Some ''duplicados'', params = p\<rparr>
            (int (len (df s)) - int (len (drop_duplicates (df s))))
            (s\<lparr>duplicados_guardados := select_rows (df s) (duplicated (df s)),
               df := drop_duplicates (df s)\<rparr>))"
  by (simp add: aplicar_def Let_def)

text \<open>
  C7. Two \<open>duplicados\<close> operations in immediate succession, on any state of the loop and
  with any parameters: both succeed, after the first no row of the frame repeats an
  earlier row, and the second leaves the frame as it is and is recorded with
  \<open>afectados = 0\<close>.
\<close>

theorem duplicados_twice_second_affects_none:
  "\<exists>s1 s2.
     aplicar ar s \<lparr>tipo = Some ''duplicados'', params = p\<rparr> = Inr s1 \<and>
     aplicar ar s1 \<lparr>tipo = Some ''duplicados'', params = q\<rparr> = Inr s2 \<and>
     aplicar_limpiezas ar s [\<lparr>tipo = Some ''duplicados'', params = p\<rparr>,
                          \<lparr>tipo = Some ''duplicados'', params = q\<rparr>] = Inr s2 \<and>
     duplicated (df s1) = replicate (len (df s1)) False \<and>
     df s2 = df s1 \<and>
     last (operaciones_realizadas s2) =
       \<lparr>op_tipo = Some ''duplicados'', op_parametros = q, afectados = 0\<rparr> \<and>
     total_afectados s2 = total_afectados s1"
  by (simp add: aplicar_duplicados registrar_def drop_duplicates_idem duplicated_drop_duplicates)

subsection \<open>The scenario of the specification\<close>

text \<open>
  C3. The frame with the single numeric column \<open>x\<close> and the rows 1, 2, 2, missing, under
  the operations \<open>duplicados\<close> then \<open>nulos\<close>: the cleaned frame holds 1, 2, 0, the
  duplicates hold the row 2, the report lists \<open>duplicados\<close> with 1 and \<open>nulos\<close> with 1,
  and the total is 2.
\<close>

theorem scenario_duplicados_nulos:
  "aplicar_limpiezas ar
     (inicial \<lparr>columns = [(''x'', Float64)], rows = [[Num 1], [Num 2], [Num 2], [Null]]\<rparr>)
     [\<lparr>tipo = Some ''duplicados'', params = \<lparr>columnas = None, umbral = None\<rparr>\<rparr>,
      \<lparr>tipo = Some ''nulos'', params = \<lparr>columnas = None, umbral = None\<rparr>\<rparr>]
   = Inr \<lparr>df = \<lparr>columns = [(''x'', Float64)], rows = [[Num 1], [Num 2], [Num 0]]\<rparr>,
          operaciones_realizadas =
            [\<lparr>op_tipo = Some ''duplicados'',
              op_parametros = \<lparr>columnas = None, umbral = None\<rparr>, afectados = 1\<rparr>,
             \<lparr>op_tipo = Some ''nulos'',
              op_parametros = \<lparr>columnas = None, umbral = None\<rparr>, afectados = 1\<rparr>],
          total_afectados = 2,
          duplicados_guardados = \<lparr>columns = [(''x'', Float64)], rows = [[Num 2]]\<rparr>\<rparr>"
  by code_simp

subsection \<open>The loop over the operations\<close>

lemma aplicar_limpiezas_append:
  "aplicar_limpiezas ar s (xs @ ys) =
     (case aplicar_limpiezas ar s xs of Inl e \<Rightarrow> Inl e | Inr s' \<Rightarrow> aplicar_limpiezas ar s' ys)"
  by (induction xs arbitrary: s) (auto split: sum.splits)

lemma aplicar_extends_report:
  "aplicar ar s l = Inr s' \<Longrightarrow>
     \<exists>n. operaciones_realizadas s' =
           operaciones_realizadas s @ [\<lparr>op_tipo = tipo l, op_parametros = params l, afectados = n\<rparr>]"
  by (auto simp: aplicar_def registrar_def Let_def split: if_splits sum.splits prod.splits)

lemma aplicar_limpiezas_extends_report:
  "aplicar_limpiezas ar s ls = Inr s' \<Longrightarrow>
     \<exists>ext. operaciones_realizadas s' = operaciones_realizadas s @ ext \<and> length ext = length ls"
proof (induction ls arbitrary: s)
  case Nil
  then show ?case by simp
next
  case (Cons l ls)
  from Cons.prems obtain s1 where s1: "aplicar ar s l = Inr s1" "aplicar_limpiezas ar s1 ls = Inr s'"
    by (auto split: sum.splits)
  from aplicar_extends_report[OF s1(1)] obtain n where
    n: "operaciones_realizadas s1 =
          operaciones_realizadas s @ [\<lparr>op_tipo = tipo l, op_parametros = params l, afectados = n\<rparr>]"
    by blast
  from Cons.IH[OF s1(2)] obtain ext where
    "operaciones_realizadas s' = operaciones_realizadas s1 @ ext" "length ext = length ls" by blast
  with n show ?case by simp
qed

lemma aplicar_keeps_duplicados_guardados:
  "aplicar ar s l = Inr s' \<Longrightarrow> tipo l \<noteq> Some ''duplicados'' \<Longrightarrow>
     duplicados_guardados s' = duplicados_guardados s"
  by (auto simp: aplicar_def registrar_def Let_def split: if_splits sum.splits prod.splits)

lemma aplicar_limpiezas_keeps_duplicados_guardados:
  "aplicar_limpiezas ar s ls = Inr s' \<Longrightarrow> Some ''duplicados'' \<notin> set (map tipo ls) \<Longrightarrow>
     duplicados_guardados s' = duplicados_guardados s"
proof (induction ls arbitrary: s)
  case Nil
  then show ?case by simp
next
  case (Cons l ls)
  from Cons.prems(1) obtain s1 where s1: "aplicar ar s l = Inr s1" "aplicar_limpiezas ar s1 ls = Inr s'"
    by (auto split: sum.splits)
  from Cons.prems(2) have "tipo l \<noteq> Some ''duplicados''" "Some ''duplicados'' \<notin> set (map tipo ls)"
    by auto
  with s1 Cons.IH[of s1] aplicar_keeps_duplicados_guardados[of ar s l s1] show ?case by simp
qed

subsection \<open>The duplicates side-table\<close>

text \<open>
  C1, as the code has it. When a run completes, the duplicates side-table is the frame of
  the rows that the last \<open>duplicados\<close> operation of the run removed: the rows it marked
  as duplicates in the frame left by the operations before it, in the order of the frame.
\<close>

theorem side_table_is_last_duplicados:
  assumes run: "aplicar_limpiezas ar s (pre @ \<lparr>tipo = Some ''duplicados'', params = p\<rparr> # post) = Inr s'"
    and final: "Some ''duplicados'' \<notin> set (map tipo post)"
  shows "\<exists>s1. aplicar_limpiezas ar s pre = Inr s1 \<and>
           duplicados_guardados s' = select_rows (df s1) (duplicated (df s1))"
proof -
  from run obtain s1 where s1: "aplicar_limpiezas ar s pre = Inr s1"
    and rest: "aplicar_limpiezas ar s1 (\<lparr>tipo = Some ''duplicados'', params = p\<rparr> # post) = Inr s'"
    by (auto simp: aplicar_limpiezas_append split: sum.splits)
  from rest obtain s2 where s2: "aplicar ar s1 \<lparr>tipo = Some ''duplicados'', params = p\<rparr> = Inr s2"
    and post: "aplicar_limpiezas ar s2 post = Inr s'"
    by (auto split: sum.splits)
  from s2 have "duplicados_guardados s2 = select_rows (df s1) (duplicated (df s1))"
    by (auto simp: aplicar_duplicados registrar_def)
  with aplicar_limpiezas_keeps_duplicados_guardados[OF post final] s1 show ?thesis by simp
qed

text \<open>
  The theorem at a run with two \<open>duplicados\<close> operations: on \<open>frame_x\<close>, the operations
  \<open>duplicados\<close>, \<open>nulos\<close>, \<open>duplicados\<close>, \<open>normalizar\<close> end with the side-table holding the
  row 0, which the second \<open>duplicados\<close> removed from the frame 1, 0, 0.
\<close>

theorem side_table_is_last_duplicados_witness:
  "aplicar_limpiezas exacta (inicial frame_x)
     ([op_duplicados, op_nulos] @ \<lparr>tipo = Some ''duplicados'', params = sin_parametros\<rparr> # [op_normalizar])
     = Inr \<lparr>df = \<lparr>columns = [(''x'', Float64)], rows = [[Num 1], [Num 0]]\<rparr>,
            operaciones_realizadas =
              [\<lparr>op_tipo = Some ''duplicados'', op_parametros = sin_parametros, afectados = 1\<rparr>,
               \<lparr>op_tipo = Some ''nulos'', op_parametros = sin_parametros, afectados = 1\<rparr>,
               \<lparr>op_tipo = Some ''duplicados'', op_parametros = sin_parametros, afectados = 1\<rparr>,
               \<lparr>op_tipo = Some ''normalizar'', op_parametros = sin_parametros, afectados = 0\<rparr>],
            total_afectados = 3,
            duplicados_guardados = \<lparr>columns = [(''x'', Float64)], rows = [[Num 0]]\<rparr>\<rparr> \<and>
   Some ''duplicados'' \<notin> set (map tipo [op_normalizar]) \<and>
   (\<exists>s1. aplicar_limpiezas exacta (inicial frame_x) [op_duplicados, op_nulos] = Inr s1 \<and>
      \<lparr>columns = [(''x'', Float64)], rows = [[Num 0]]\<rparr> = select_rows (df s1) (duplicated (df s1)))"
proof -
  have run: "aplicar_limpiezas exacta (inicial frame_x)
     ([op_duplicados, op_nulos] @ \<lparr>tipo = Some ''duplicados'', params = sin_parametros\<rparr> # [op_normalizar])
     = Inr \<lparr>df = \<lparr>columns = [(''x'', Float64)], rows = [[Num 1], [Num 0]]\<rparr>,
            operaciones_realizadas =
              [\<lparr>op_tipo = Some ''duplicados'', op_parametros = sin_parametros, afectados = 1\<rparr>,
               \<lparr>op_tipo = Some ''nulos'', op_parametros = sin_parametros, afectados = 1\<rparr>,
               \<lparr>op_tipo = Some ''duplicados'', op_parametros = sin_parametros, afectados = 1\<rparr>,
               \<lparr>op_tipo = Some ''normalizar'', op_parametros = sin_parametros, afectados = 0\<rparr>],
            total_afectados = 3,
            duplicados_guardados = \<lparr>columns = [(''x'', Float64)], rows = [[Num 0]]\<rparr>\<rparr>"
    by code_simp
  have final: "Some ''duplicados'' \<notin> set (map tipo [op_normalizar])"
    by (simp add: op_normalizar_def)
  from side_table_is_last_duplicados[OF run final] run final show ?thesis by simp
qed

text \<open>
  C1 as stated fails. On \<open>frame_x\<close> the operations \<open>duplicados\<close>, \<open>nulos\<close>, \<open>duplicados\<close>
  remove the row 1 and then the row 0; the side-table at the end holds the row 0 only,
  not both.
\<close>

theorem side_table_accumulated_counterexample:
  "aplicar_limpiezas exacta (inicial frame_x) [op_duplicados, op_nulos, op_duplicados]
     = Inr \<lparr>df = \<lparr>columns = [(''x'', Float64)], rows = [[Num 1], [Num 0]]\<rparr>,
            operaciones_realizadas =
              [\<lparr>op_tipo = Some ''duplicados'', op_parametros = sin_parametros, afectados = 1\<rparr>,
               \<lparr>op_tipo = Some ''nulos'', op_parametros = sin_parametros, afectados = 1\<rparr>,
               \<lparr>op_tipo = Some ''duplicados'', op_parametros = sin_parametros, afectados = 1\<rparr>],
            total_afectados = 3,
            duplicados_guardados = \<lparr>columns = [(''x'', Float64)], rows = [[Num 0]]\<rparr>\<rparr> \<and>
   spec_duplicates_side_table exacta (inicial frame_x) [op_duplicados, op_nulos, op_duplicados]
     = [[Num 1], [Num 0]]"
  by code_simp

subsection \<open>Operations of an unknown kind\<close>

text \<open>
  C6. An operation whose \<open>tipo\<close> is none of \<open>duplicados\<close>, \<open>nulos\<close>, \<open>outliers\<close> does not
  fail and changes nothing but the report, where it is appended with \<open>afectados = 0\<close>
  (the total is unchanged); the loop goes on with the operations after it; and in a
  completed run the entry stands at the position the operation had in the request.
\<close>

theorem unknown_tipo_recorded_and_skipped:
  assumes unknown:
    "tipo l \<noteq> Some ''duplicados''" "tipo l \<noteq> Some ''nulos''" "tipo l \<noteq> Some ''outliers''"
  shows "aplicar ar s l =
           Inr (s\<lparr>operaciones_realizadas := operaciones_realizadas s @
                   [\<lparr>op_tipo = tipo l, op_parametros = params l, afectados = 0\<rparr>]\<rparr>) \<and>
         aplicar_limpiezas ar s (pre @ l # post) =
           (case aplicar_limpiezas ar s pre of
              Inl e \<Rightarrow> Inl e
            | Inr s1 \<Rightarrow>
                aplicar_limpiezas ar
                  (s1\<lparr>operaciones_realizadas := operaciones_realizadas s1 @
                        [\<lparr>op_tipo = tipo l, op_parametros = params l, afectados = 0\<rparr>]\<rparr>) post) \<and>
         (\<forall>s'. aplicar_limpiezas ar (inicial f) (pre @ l # post) = Inr s' \<longrightarrow>
               operaciones_realizadas s' ! length pre =
                 \<lparr>op_tipo = tipo l, op_parametros = params l, afectados = 0\<rparr>)"
proof -
  have step: "aplicar ar t l =
           Inr (t\<lparr>operaciones_realizadas := operaciones_realizadas t @
                   [\<lparr>op_tipo = tipo l, op_parametros = params l, afectados = 0\<rparr>]\<rparr>)" for t
    using unknown by (simp add: aplicar_def registrar_def)
  have run: "aplicar_limpiezas ar t (pre @ l # post) =
           (case aplicar_limpiezas ar t pre of
              Inl e \<Rightarrow> Inl e
            | Inr s1 \<Rightarrow>
                aplicar_limpiezas ar
                  (s1\<lparr>operaciones_realizadas := operaciones_realizadas s1 @
                        [\<lparr>op_tipo = tipo l, op_parametros = params l, afectados = 0\<rparr>]\<rparr>) post)" for t
    by (simp add: aplicar_limpiezas_append step split: sum.splits)
  have pos: "operaciones_realizadas s' ! length pre =
                 \<lparr>op_tipo = tipo l, op_parametros = params l, afectados = 0\<rparr>"
    if fin: "aplicar_limpiezas ar (inicial f) (pre @ l # post) = Inr s'" for s'
  proof -
    from fin run[of "inicial f"] obtain s1 where s1: "aplicar_limpiezas ar (inicial f) pre = Inr s1"
      and rest: "aplicar_limpiezas ar
                  (s1\<lparr>operaciones_realizadas := operaciones_realizadas s1 @
                        [\<lparr>op_tipo = tipo l, op_parametros = params l, afectados = 0\<rparr>]\<rparr>) post = Inr s'"
      by (auto split: sum.splits)
    from aplicar_limpiezas_extends_report[OF s1] obtain e1 where
      e1: "operaciones_realizadas s1 = e1" "length e1 = length pre"
      by (auto simp: inicial_def)
    from aplicar_limpiezas_extends_report[OF rest] obtain e2 where
      "operaciones_realizadas s' =
         (e1 @ [\<lparr>op_tipo = tipo l, op_parametros = params l, afectados = 0\<rparr>]) @ e2"
      using e1 by auto
    with e1 show ?thesis by (simp add: nth_append)
  qed
  from step run pos show ?thesis by blast
qed

text \<open>
  The theorem at the operation \<open>normalizar\<close>, between \<open>duplicados\<close> and \<open>nulos\<close> on
  \<open>frame_x\<close>: the run completes and the second entry of the report is \<open>normalizar\<close> with
  \<open>afectados = 0\<close>.
\<close>

theorem unknown_tipo_recorded_and_skipped_witness:
  "tipo op_normalizar \<noteq> Some ''duplicados'' \<and>
   tipo op_normalizar \<noteq> Some ''nulos'' \<and>
   tipo op_normalizar \<noteq> Some ''outliers'' \<and>
   aplicar exacta (inicial frame_x) op_normalizar =
     Inr ((inicial frame_x)\<lparr>operaciones_realizadas :=
            [\<lparr>op_tipo = Some ''normalizar'', op_parametros = sin_parametros, afectados = 0\<rparr>]\<rparr>) \<and>
   aplicar_limpiezas exacta (inicial frame_x) ([op_duplicados] @ op_normalizar # [op_nulos]) =
     Inr \<lparr>df = \<lparr>columns = [(''x'', Float64)], rows = [[Num 1], [Num 0], [Num 0]]\<rparr>,
          operaciones_realizadas =
            [\<lparr>op_tipo = Some ''duplicados'', op_parametros = sin_parametros, afectados = 1\<rparr>,
             \<lparr>op_tipo = Some ''normalizar'', op_parametros = sin_parametros, afectados = 0\<rparr>,
             \<lparr>op_tipo = Some ''nulos'', op_parametros = sin_parametros, afectados = 1\<rparr>],
          total_afectados = 2,
          duplicados_guardados = \<lparr>columns = [(''x'', Float64)], rows = [[Num 1]]\<rparr>\<rparr> \<and>
   [\<lparr>op_tipo = Some ''duplicados'', op_parametros = sin_parametros, afectados = 1\<rparr>,
    \<lparr>op_tipo = Some ''normalizar'', op_parametros = sin_parametros, afectados = 0\<rparr>,
    \<lparr>op_tipo = Some ''nulos'', op_parametros = sin_parametros, afectados = 1\<rparr>] ! length [op_duplicados]
     = \<lparr>op_tipo = tipo op_normalizar, op_parametros = params op_normalizar, afectados = 0\<rparr>"
proof -
  have u: "tipo op_normalizar \<noteq> Some ''duplicados''" "tipo op_normalizar \<noteq> Some ''nulos''"
    "tipo op_normalizar \<noteq> Some ''outliers''"
    by (simp_all add: op_normalizar_def)
  have run: "aplicar_limpiezas exacta (inicial frame_x) ([op_duplicados] @ op_normalizar # [op_nulos]) =
     Inr \<lparr>df = \<lparr>columns = [(''x'', Float64)], rows = [[Num 1], [Num 0], [Num 0]]\<rparr>,
          operaciones_realizadas =
            [\<lparr>op_tipo = Some ''duplicados'', op_parametros = sin_parametros, afectados = 1\<rparr>,
             \<lparr>op_tipo = Some ''normalizar'', op_parametros = sin_parametros, afectados = 0\<rparr>,
             \<lparr>op_tipo = Some ''nulos'', op_parametros = sin_parametros, afectados = 1\<rparr>],
          total_afectados = 2,
          duplicados_guardados = \<lparr>columns = [(''x'', Float64)], rows = [[Num 1]]\<rparr>\<rparr>"
    by code_simp
  from unknown_tipo_recorded_and_skipped[OF u, where ar = exacta and s = "inicial frame_x"
      and pre = "[op_duplicados]" and post = "[op_nulos]" and f = frame_x]
  have "aplicar exacta (inicial frame_x) op_normalizar =
     Inr ((inicial frame_x)\<lparr>operaciones_realizadas :=
            [\<lparr>op_tipo = Some ''normalizar'', op_parametros = sin_parametros, afectados = 0\<rparr>]\<rparr>)"
    by (simp add: op_normalizar_def inicial_def)
  with u run show ?thesis by (simp add: op_normalizar_def)
qed

subsection \<open>Missing values\<close>

lemma fillna_loop_rows:
  "rows (fillna_loop j cols f) = map (fill_row j cols) (rows f)"
proof (induction cols arbitrary: j f)
  case Nil
  have "fill_row j [] = (\<lambda>r. r)" by (rule ext) simp
  then show ?case by simp
next
  case (Cons col cols)
  then show ?case by (simp add: fillna_column_def comp_def)
qed

lemma fillna_loop_columns: "columns (fillna_loop j cols f) = columns f"
  by (induction cols arbitrary: j f) (simp_all add: fillna_column_def)

lemma length_fill_row: "length (fill_row j cols r) = length r"
  by (induction cols arbitrary: j r) simp_all

lemma fill_value_not_Null: "fill_value d \<noteq> Null"
  by (simp add: fill_value_def)

lemma nth_fill_row:
  "i < length r \<Longrightarrow>
     fill_row j cols r ! i =
       (if j \<le> i \<and> i < j + length cols \<and> r ! i = Null
        then fill_value (snd (cols ! (i - j))) else r ! i)"
proof (induction cols arbitrary: j r)
  case Nil
  then show ?case by auto
next
  case (Cons col cols)
  let ?r = "if j < length r \<and> r ! j = Null then r[j := fill_value (snd col)] else r"
  have len: "i < length ?r" using Cons.prems by simp
  show ?case
  proof (cases "i = j")
    case True
    with Cons.prems Cons.IH[OF len, of "Suc j"] show ?thesis
      by (simp add: fill_value_not_Null)
  next
    case False
    with Cons.prems Cons.IH[OF len, of "Suc j"] show ?thesis
      by (auto simp: nth_Cons' Suc_diff_Suc)
  qed
qed

lemma fill_row_no_Null:
  assumes "length r = length cols"
  shows "filter (\<lambda>c. c = Null) (fill_row 0 cols r) = []"
proof -
  have "fill_row 0 cols r ! i \<noteq> Null" if "i < length r" for i
    using that assms by (simp add: nth_fill_row fill_value_not_Null)
  then have "\<forall>c \<in> set (fill_row 0 cols r). c \<noteq> Null"
    by (auto simp: in_set_conv_nth length_fill_row)
  then show ?thesis by (simp add: filter_empty_conv)
qed

lemma isnull_sum_fillna_all: "wf_frame f \<Longrightarrow> isnull_sum (fillna_all f) = 0"
  by (auto simp: isnull_sum_def fillna_all_def fillna_loop_rows wf_frame_def list_all_iff
      fill_row_no_Null)

lemma wf_fillna_all: "wf_frame f \<Longrightarrow> wf_frame (fillna_all f)"
  by (auto simp: fillna_all_def fillna_loop_rows fillna_loop_columns wf_frame_def list_all_iff
      length_fill_row)

lemma nth_fillna_all:
  assumes "wf_frame f" "i < length (rows f)" "j < length (columns f)"
  shows "rows (fillna_all f) ! i ! j =
           (if rows f ! i ! j = Null
            then (if snd (columns f ! j) = Object then Str ''N/A'' else Num 0)
            else rows f ! i ! j)"
proof -
  from assms have "length (rows f ! i) = length (columns f)"
    by (auto simp: wf_frame_def list_all_iff)
  with assms show ?thesis
    by (simp add: fillna_all_def fillna_loop_rows nth_fill_row fill_value_def)
qed

text \<open>
  C4. On a frame that satisfies the invariant and holds \<open>k\<close> missing cells, the \<open>nulos\<close>
  operation succeeds and is recorded with \<open>afectados = k\<close>, a count of cells; afterwards
  no cell is missing; the columns and the number of rows are unchanged; and every cell
  that was missing holds \<open>"N/A"\<close> in a column of kind \<open>object\<close> and the number 0 in any
  other column, every other cell being unchanged.
\<close>

theorem nulos_fills_every_null:
  assumes wf: "wf_frame (df s)"
  shows "\<exists>s'. aplicar ar s \<lparr>tipo = Some ''nulos'', params = p\<rparr> = Inr s' \<and>
           last (operaciones_realizadas s') =
             \<lparr>op_tipo = Some ''nulos'', op_parametros = p, afectados = int (isnull_sum (df s))\<rparr> \<and>
           total_afectados s' = total_afectados s + int (isnull_sum (df s)) \<and>
           isnull_sum (df s') = 0 \<and>
           wf_frame (df s') \<and>
           columns (df s') = columns (df s) \<and>
           length (rows (df s')) = length (rows (df s)) \<and>
           (\<forall>i < length (rows (df s)). \<forall>j < length (columns (df s)).
              rows (df s') ! i ! j =
                (if rows (df s) ! i ! j = Null
                 then (if snd (columns (df s) ! j) = Object then Str ''N/A'' else Num 0)
                 else rows (df s) ! i ! j))"
proof -
  have "aplicar ar s \<lparr>tipo = Some ''nulos'', params = p\<rparr> =
          Inr (registrar \<lparr>tipo = Some ''nulos'', params = p\<rparr> (int (isnull_sum (df s)))
                 (s\<lparr>df := fillna_all (df s)\<rparr>))"
    by (simp add: aplicar_def Let_def)
  moreover have "length (rows (fillna_all (df s))) = length (rows (df s))"
    by (simp add: fillna_all_def fillna_loop_rows)
  moreover have "columns (fillna_all (df s)) = columns (df s)"
    by (simp add: fillna_all_def fillna_loop_columns)
  ultimately show ?thesis
    using wf isnull_sum_fillna_all[OF wf] wf_fillna_all[OF wf] nth_fillna_all[OF wf]
    by (simp add: registrar_def)
qed

text \<open>
  The theorem on \<open>frame_mixto\<close>: three cells are missing, the operation reports 3, the
  text cell becomes \<open>"N/A"\<close> and the two numeric cells become 0.
\<close>

theorem nulos_fills_every_null_witness:
  "wf_frame (df (inicial frame_mixto)) \<and>
   isnull_sum (df (inicial frame_mixto)) = 3 \<and>
   aplicar exacta (inicial frame_mixto) \<lparr>tipo = Some ''nulos'', params = sin_parametros\<rparr> =
     Inr \<lparr>df = \<lparr>columns = [(''nombre'', Object), (''edad'', Float64)],
                 rows = [[Str ''ana'', Num 30], [Str ''N/A'', Num 0], [Str ''luis'', Num 0]]\<rparr>,
          operaciones_realizadas =
            [\<lparr>op_tipo = Some ''nulos'', op_parametros = sin_parametros, afectados = 3\<rparr>],
          total_afectados = 3,
          duplicados_guardados = DataFrame\<rparr> \<and>
   isnull_sum \<lparr>columns = [(''nombre'', Object), (''edad'', Float64)],
               rows = [[Str ''ana'', Num 30], [Str ''N/A'', Num 0], [Str ''luis'', Num 0]]\<rparr> = 0"
proof -
  have wf: "wf_frame (df (inicial frame_mixto))"
    by (simp add: inicial_def frame_mixto_def wf_frame_def)
  have k: "isnull_sum (df (inicial frame_mixto)) = 3"
    by (simp add: inicial_def frame_mixto_def isnull_sum_def)
  have run: "aplicar exacta (inicial frame_mixto) \<lparr>tipo = Some ''nulos'', params = sin_parametros\<rparr> =
     Inr \<lparr>df = \<lparr>columns = [(''nombre'', Object), (''edad'', Float64)],
                 rows = [[Str ''ana'', Num 30], [Str ''N/A'', Num 0], [Str ''luis'', Num 0]]\<rparr>,
          operaciones_realizadas =
            [\<lparr>op_tipo = Some ''nulos'', op_parametros = sin_parametros, afectados = 3\<rparr>],
          total_afectados = 3,
          duplicados_guardados = DataFrame\<rparr>"
    by code_simp
  from nulos_fills_every_null[OF wf, where ar = exacta and p = sin_parametros] run
  have "isnull_sum \<lparr>columns = [(''nombre'', Object), (''edad'', Float64)],
               rows = [[Str ''ana'', Num 30], [Str ''N/A'', Num 0], [Str ''luis'', Num 0]]\<rparr> = 0"
    by auto
  with wf k run show ?thesis by simp
qed

subsection \<open>Outliers\<close>

lemma outliers_loop_append:
  "outliers_loop ar u (cols1 @ cols2) f =
     (case outliers_loop ar u cols1 f of Inl e \<Rightarrow> Inl e | Inr f' \<Rightarrow> outliers_loop ar u cols2 f')"
  by (induction cols1 arbitrary: f) (auto split: sum.splits)




lemma select_by_marks: "map fst (filter snd (zip rs (map h rs))) = filter h rs"
  by (induction rs) auto

lemma select_rows_column_cells:
  "select_rows f (map P (column_cells f j)) =
     f\<lparr>rows := filter (\<lambda>r. P (if j < length r then r ! j else Null)) (rows f)\<rparr>"
  unfolding select_rows_def column_cells_def map_map select_by_marks
  by (simp only: comp_def)

lemma aplicar_outliers:
  "aplicar ar s \<lparr>tipo = Some ''outliers'', params = \<lparr>columnas = Some cols, umbral = uo\<rparr>\<rparr> =
     (case outliers_loop ar (case uo of Some u \<Rightarrow> u | None \<Rightarrow> 3 / 2) cols (df s) of
        Inl (e, f) \<Rightarrow> Inl (e, s\<lparr>df := f\<rparr>)
      | Inr f \<Rightarrow>
          Inr (registrar \<lparr>tipo = Some ''outliers'', params = \<lparr>columnas = Some cols, umbral = uo\<rparr>\<rparr>
                 (int (len (df s)) - int (len f)) (s\<lparr>df := f\<rparr>)))"
  by (simp add: aplicar_def Let_def)

text \<open>
  C2, as the code has it. A \<open>outliers\<close> operation filters cumulatively, column by column
  in the listed order. The operation on the columns \<open>cs @ ds\<close> ends with the frame that
  the operation on \<open>cs\<close> followed by the operation on \<open>ds\<close> ends with, and removes as
  many rows as the two together; when the operation on \<open>cs\<close> fails, the one on
  \<open>cs @ ds\<close> fails in the same way. On one numeric column the operation keeps exactly
  the rows whose cell is a number within \<open>[Q1 - u * IQR, Q3 + u * IQR]\<close>, the quartiles
  being taken over the frame as it stands when the column is reached. This holds for
  every floating-point arithmetic \<open>ar\<close>.
\<close>

theorem outliers_cumulative_in_listed_order:
  "(\<forall>s1 s2.
      aplicar ar s \<lparr>tipo = Some ''outliers'', params = \<lparr>columnas = Some cs, umbral = uo\<rparr>\<rparr> = Inr s1 \<and>
      aplicar ar s1 \<lparr>tipo = Some ''outliers'', params = \<lparr>columnas = Some ds, umbral = uo\<rparr>\<rparr> = Inr s2 \<longrightarrow>
      (\<exists>s'. aplicar ar s \<lparr>tipo = Some ''outliers'',
                            params = \<lparr>columnas = Some (cs @ ds), umbral = uo\<rparr>\<rparr> = Inr s' \<and>
            df s' = df s2 \<and>
            afectados (last (operaciones_realizadas s')) =
              afectados (last (operaciones_realizadas s1)) +
              afectados (last (operaciones_realizadas s2)))) \<and>
   (\<forall>x.
      aplicar ar s \<lparr>tipo = Some ''outliers'', params = \<lparr>columnas = Some cs, umbral = uo\<rparr>\<rparr> = Inl x \<longrightarrow>
      aplicar ar s \<lparr>tipo = Some ''outliers'',
                     params = \<lparr>columnas = Some (cs @ ds), umbral = uo\<rparr>\<rparr> = Inl x) \<and>
   (column_index (columns (df s)) c = Some j \<and> is_numeric (snd (columns (df s) ! j)) \<longrightarrow>
      (let d = snd (columns (df s) ! j);
           vs = numbers (column_cells (df s) j);
           u = (case uo of Some u \<Rightarrow> u | None \<Rightarrow> 3 / 2);
           Q1 = cuantil ar d vs (1 / 4);
           Q3 = cuantil ar d vs (3 / 4);
           IQR = resta ar Q3 Q1;
           lower = resta ar Q1 (producto ar u IQR);
           upper = suma ar Q3 (producto ar u IQR)
       in \<exists>s'. aplicar ar s \<lparr>tipo = Some ''outliers'',
                              params = \<lparr>columnas = Some [c], umbral = uo\<rparr>\<rparr> = Inr s' \<and>
               columns (df s') = columns (df s) \<and>
               rows (df s') =
                 filter (\<lambda>r. \<exists>v. (if j < length r then r ! j else Null) = Num v \<and>
                              mayor_igual ar d v lower \<and> menor_igual ar d v upper)
                   (rows (df s))))"
proof (intro conjI allI impI)
  fix s1 s2
  let ?u = "case uo of Some u \<Rightarrow> u | None \<Rightarrow> 3 / 2"
  assume h: "aplicar ar s \<lparr>tipo = Some ''outliers'', params = \<lparr>columnas = Some cs, umbral = uo\<rparr>\<rparr> = Inr s1 \<and>
      aplicar ar s1 \<lparr>tipo = Some ''outliers'', params = \<lparr>columnas = Some ds, umbral = uo\<rparr>\<rparr> = Inr s2"
  from h obtain f1 where f1: "outliers_loop ar ?u cs (df s) = Inr f1"
    and s1: "s1 = registrar \<lparr>tipo = Some ''outliers'', params = \<lparr>columnas = Some cs, umbral = uo\<rparr>\<rparr>
                 (int (len (df s)) - int (len f1)) (s\<lparr>df := f1\<rparr>)"
    by (auto simp: aplicar_outliers split: sum.splits prod.splits)
  from h s1 obtain f2 where f2: "outliers_loop ar ?u ds f1 = Inr f2"
    and s2: "s2 = registrar \<lparr>tipo = Some ''outliers'', params = \<lparr>columnas = Some ds, umbral = uo\<rparr>\<rparr>
                 (int (len f1) - int (len f2)) (s1\<lparr>df := f2\<rparr>)"
    by (auto simp: aplicar_outliers registrar_def split: sum.splits prod.splits)
  have "outliers_loop ar ?u (cs @ ds) (df s) = Inr f2"
    by (simp add: outliers_loop_append f1 f2)
  then show "\<exists>s'. aplicar ar s \<lparr>tipo = Some ''outliers'',
                            params = \<lparr>columnas = Some (cs @ ds), umbral = uo\<rparr>\<rparr> = Inr s' \<and>
            df s' = df s2 \<and>
            afectados (last (operaciones_realizadas s')) =
              afectados (last (operaciones_realizadas s1)) +
              afectados (last (operaciones_realizadas s2))"
    by (simp add: aplicar_outliers s1 s2 registrar_def)
next
  fix x
  let ?u = "case uo of Some u \<Rightarrow> u | None \<Rightarrow> 3 / 2"
  assume "aplicar ar s \<lparr>tipo = Some ''outliers'', params = \<lparr>columnas = Some cs, umbral = uo\<rparr>\<rparr> = Inl x"
  then obtain e f where "outliers_loop ar ?u cs (df s) = Inl (e, f)" "x = (e, s\<lparr>df := f\<rparr>)"
    by (auto simp: aplicar_outliers split: sum.splits prod.splits)
  then show "aplicar ar s \<lparr>tipo = Some ''outliers'',
                     params = \<lparr>columnas = Some (cs @ ds), umbral = uo\<rparr>\<rparr> = Inl x"
    by (simp add: aplicar_outliers outliers_loop_append)
next
  assume h: "column_index (columns (df s)) c = Some j \<and> is_numeric (snd (columns (df s) ! j))"
  let ?u = "case uo of Some u \<Rightarrow> u | None \<Rightarrow> 3 / 2"
  let ?d = "snd (columns (df s) ! j)"
  let ?vs = "numbers (column_cells (df s) j)"
  let ?Q1 = "cuantil ar ?d ?vs (1 / 4)"
  let ?Q3 = "cuantil ar ?d ?vs (3 / 4)"
  let ?lower = "resta ar ?Q1 (producto ar ?u (resta ar ?Q3 ?Q1))"
  let ?upper = "suma ar ?Q3 (producto ar ?u (resta ar ?Q3 ?Q1))"
  have cell: "in_bounds ar ?d ?lower ?upper x \<longleftrightarrow>
      (\<exists>v. x = Num v \<and> mayor_igual ar ?d v ?lower \<and> menor_igual ar ?d v ?upper)" for x
    by (cases x) auto
  from h have "outliers_column ar ?u (df s) c =
      Inr (select_rows (df s) (map (in_bounds ar ?d ?lower ?upper) (column_cells (df s) j)))"
    by (simp add: outliers_column_def Let_def)
  then have loop: "outliers_loop ar ?u [c] (df s) =
      Inr ((df s)\<lparr>rows := filter (\<lambda>r. in_bounds ar ?d ?lower ?upper (if j < length r then r ! j else Null))
                             (rows (df s))\<rparr>)"
    by (simp add: select_rows_column_cells)
  show "let d = snd (columns (df s) ! j);
           vs = numbers (column_cells (df s) j);
           u = (case uo of Some u \<Rightarrow> u | None \<Rightarrow> 3 / 2);
           Q1 = cuantil ar d vs (1 / 4);
           Q3 = cuantil ar d vs (3 / 4);
           IQR = resta ar Q3 Q1;
           lower = resta ar Q1 (producto ar u IQR);
           upper = suma ar Q3 (producto ar u IQR)
       in \<exists>s'. aplicar ar s \<lparr>tipo = Some ''outliers'',
                              params = \<lparr>columnas = Some [c], umbral = uo\<rparr>\<rparr> = Inr s' \<and>
               columns (df s') = columns (df s) \<and>
               rows (df s') =
                 filter (\<lambda>r. \<exists>v. (if j < length r then r ! j else Null) = Num v \<and>
                              mayor_igual ar d v lower \<and> menor_igual ar d v upper)
                   (rows (df s))"
    unfolding Let_def
    by (simp only: aplicar_outliers loop cell) (simp add: registrar_def)
qed

text \<open>
  The theorem on \<open>frame_ab\<close> with the threshold 1.5: the operation on \<open>A\<close> removes the
  fourth row, the operation on \<open>B\<close> then removes the last one, and the operation on
  \<open>A, B\<close> removes both.
\<close>

theorem outliers_cumulative_in_listed_order_witness:
  "aplicar exacta (inicial frame_ab) (op_outliers [''A'']) = Inr estado_a \<and>
   aplicar exacta estado_a (op_outliers [''B'']) = Inr estado_ab \<and>
   (\<exists>s'. aplicar exacta (inicial frame_ab) (op_outliers ([''A''] @ [''B''])) = Inr s' \<and>
         df s' = df estado_ab \<and>
         afectados (last (operaciones_realizadas s')) = 2) \<and>
   column_index (columns (df (inicial frame_ab))) ''A'' = Some 0 \<and>
   is_numeric (snd (columns (df (inicial frame_ab)) ! 0)) \<and>
   (\<exists>s'. aplicar exacta (inicial frame_ab) (op_outliers [''A'']) = Inr s' \<and>
         rows (df s') = [[Num 0, Num 0], [Num 0, Num 0], [Num 0, Num 0], [Num 0, Num 3]])"
proof -
  have a: "aplicar exacta (inicial frame_ab) (op_outliers [''A'']) = Inr estado_a"
    by code_simp
  have b: "aplicar exacta estado_a (op_outliers [''B'']) = Inr estado_ab"
    by code_simp
  have h: "column_index (columns (df (inicial frame_ab))) ''A'' = Some 0 \<and>
      is_numeric (snd (columns (df (inicial frame_ab)) ! 0))"
    by (simp add: inicial_def frame_ab_def is_numeric_def)
  note t = outliers_cumulative_in_listed_order[where ar = exacta and s = "inicial frame_ab"
      and cs = "[''A'']" and ds = "[''B'']" and uo = "Some (3 / 2)" and c = "''A''" and j = 0]
  have n: "afectados (last (operaciones_realizadas estado_a)) +
      afectados (last (operaciones_realizadas estado_ab)) = 2"
    by (simp add: estado_a_def estado_ab_def)
  from t a b have c: "\<exists>s'. aplicar exacta (inicial frame_ab) (op_outliers ([''A''] @ [''B''])) = Inr s' \<and>
         df s' = df estado_ab \<and>
         afectados (last (operaciones_realizadas s')) = 2"
    unfolding op_outliers_def n[symmetric] by blast
  from t h a have d: "\<exists>s'. aplicar exacta (inicial frame_ab) (op_outliers [''A'']) = Inr s' \<and>
         rows (df s') = [[Num 0, Num 0], [Num 0, Num 0], [Num 0, Num 0], [Num 0, Num 3]]"
    by (simp add: estado_a_def)
  from a b c h d show ?thesis by simp
qed

text \<open>
  C2 as stated fails: on \<open>frame_ab\<close> with the threshold 1.5, the columns \<open>A, B\<close> leave
  three rows (two removed) and the columns \<open>B, A\<close> leave four (one removed). With the
  fourth row present the quartiles of \<open>B\<close> are 0 and 3 and the value 3 is kept; once \<open>A\<close>
  has removed that row they are 0 and 0.75 and the value 3 is an outlier. Every number
  computed on the way (the bounds -4.5, 7.5, -1.125 and 1.875 among them) is a small
  dyadic number, which 64-bit floating point represents and computes exactly.
\<close>

theorem outliers_order_counterexample:
  "aplicar exacta (inicial frame_ab) (op_outliers [''A'', ''B'']) =
     Inr \<lparr>df = \<lparr>columns = [(''A'', Int64), (''B'', Int64)],
                 rows = [[Num 0, Num 0], [Num 0, Num 0], [Num 0, Num 0]]\<rparr>,
          operaciones_realizadas =
            [\<lparr>op_tipo = Some ''outliers'',
              op_parametros = \<lparr>columnas = Some [''A'', ''B''], umbral = Some (3 / 2)\<rparr>,
              afectados = 2\<rparr>],
          total_afectados = 2,
          duplicados_guardados = DataFrame\<rparr> \<and>
   aplicar exacta (inicial frame_ab) (op_outliers [''B'', ''A'']) =
     Inr \<lparr>df = \<lparr>columns = [(''A'', Int64), (''B'', Int64)],
                 rows = [[Num 0, Num 0], [Num 0, Num 0], [Num 0, Num 0], [Num 0, Num 3]]\<rparr>,
          operaciones_realizadas =
            [\<lparr>op_tipo = Some ''outliers'',
              op_parametros = \<lparr>columnas = Some [''B'', ''A''], umbral = Some (3 / 2)\<rparr>,
              afectados = 1\<rparr>],
          total_afectados = 1,
          duplicados_guardados = DataFrame\<rparr>"
  by code_simp

subsection \<open>A column that cannot be filtered\<close>





lemma obtener_trace: "obtener sv i = (Inr (ruta, f), tr) \<Longrightarrow> tr = [Select i, Download ruta]"
  by (auto simp: obtener_def split: sum.splits option.splits)




subsection \<open>Publishing with an empty side-table\<close>

lemma guardar_duplicados_empty:
  "df_empty dups \<Longrightarrow> guardar_duplicados sv i ruta dups = (Inr None, [])"
  by (simp add: guardar_duplicados_def)

text \<open>
  C8. When the loop completes with an empty side-table, the endpoint uploads the cleaned
  frame and inserts the one record of the run, whose \<open>ruta_duplicados\<close> is absent; the
  summary returned has no duplicates URL; and no call stores or records duplicates,
  also when the upload or the insertion raises.
\<close>

theorem empty_side_table_publishes_no_duplicates:
  assumes req: "dataset_id r = Some i" "i \<noteq> 0" "tipos_limpieza r \<noteq> []"
    and got: "obtener sv i = (Inr (ruta, f), tr)"
    and run: "aplicar_limpiezas ar (inicial f) (tipos_limpieza r) = Inr s"
    and emp: "df_empty (duplicados_guardados s)"
  shows "limpiar_dataset_multiple ar sv r =
     (let clean = ''clean/'' @ ''clean_multi_'' @ basename ruta;
          subida = Upload clean (to_csv sv (df s));
          fila = \<lparr>limp_dataset_id = i, tipo_limpieza = ''multiple'',
                   parametros_usados = operaciones_realizadas s,
                   num_registros_afectados = total_afectados s,
                   ruta_dataset_limpio = clean,
                   limp_ruta_duplicados = None,
                   limp_estado = ''Completada''\<rparr>
      in (case upload sv clean (to_csv sv (df s)) of
            Some e \<Rightarrow> (Error500 e, [Select i, Download ruta, subida])
          | None \<Rightarrow>
              (case insert_limpieza sv fila of
                 Inl e \<Rightarrow> (Error500 e, [Select i, Download ruta, subida, InsertLimpieza fila])
               | Inr lid \<Rightarrow>
                   (Ok200 \<lparr>operaciones = operaciones_realizadas s,
                           res_total_afectados = total_afectados s,
                           res_ruta_dataset_limpio = get_public_url sv clean,
                           res_ruta_duplicados = None,
                           limpieza_id = lid\<rparr>,
                    [Select i, Download ruta, subida, InsertLimpieza fila])))) \<and>
     \<not> list_ex escribe_duplicados (snd (limpiar_dataset_multiple ar sv r))"
proof -
  from obtener_trace[OF got] have tr: "tr = [Select i, Download ruta]" .
  have eq: "limpiar_dataset_multiple ar sv r =
     (let clean = ''clean/'' @ ''clean_multi_'' @ basename ruta;
          subida = Upload clean (to_csv sv (df s));
          fila = \<lparr>limp_dataset_id = i, tipo_limpieza = ''multiple'',
                   parametros_usados = operaciones_realizadas s,
                   num_registros_afectados = total_afectados s,
                   ruta_dataset_limpio = clean,
                   limp_ruta_duplicados = None,
                   limp_estado = ''Completada''\<rparr>
      in (case upload sv clean (to_csv sv (df s)) of
            Some e \<Rightarrow> (Error500 e, [Select i, Download ruta, subida])
          | None \<Rightarrow>
              (case insert_limpieza sv fila of
                 Inl e \<Rightarrow> (Error500 e, [Select i, Download ruta, subida, InsertLimpieza fila])
               | Inr lid \<Rightarrow>
                   (Ok200 \<lparr>operaciones = operaciones_realizadas s,
                           res_total_afectados = total_afectados s,
                           res_ruta_dataset_limpio = get_public_url sv clean,
                           res_ruta_duplicados = None,
                           limpieza_id = lid\<rparr>,
                    [Select i, Download ruta, subida, InsertLimpieza fila]))))"
    using req got run tr
    by (simp add: limpiar_dataset_multiple_def publicar_def guardar_duplicados_empty[OF emp] Let_def
        split: option.splits sum.splits)
  have "\<not> list_ex escribe_duplicados (snd (limpiar_dataset_multiple ar sv r))"
    unfolding eq by (simp add: Let_def escribe_duplicados_def split: option.splits sum.splits)
  with eq show ?thesis by simp
qed

text \<open>
  The theorem on the dataset 7 with \<open>nulos\<close> then \<open>duplicados\<close>: no row of \<open>frame_mixto\<close>
  is a duplicate, the side-table has columns and no rows, and the calls are the query,
  the download, one upload and one insertion.
\<close>

theorem empty_side_table_publishes_no_duplicates_witness:
  "dataset_id \<lparr>dataset_id = Some 7, tipos_limpieza = [op_nulos, op_duplicados]\<rparr> = Some 7 \<and>
   (7::int) \<noteq> 0 \<and>
   tipos_limpieza \<lparr>dataset_id = Some 7, tipos_limpieza = [op_nulos, op_duplicados]\<rparr> \<noteq> [] \<and>
   obtener servicios_demo 7 =
     (Inr (''datasets/datos.csv'', frame_mixto), [Select 7, Download ''datasets/datos.csv'']) \<and>
   aplicar_limpiezas exacta (inicial frame_mixto) [op_nulos, op_duplicados] =
     Inr \<lparr>df = \<lparr>columns = [(''nombre'', Object), (''edad'', Float64)],
                 rows = [[Str ''ana'', Num 30], [Str ''N/A'', Num 0], [Str ''luis'', Num 0]]\<rparr>,
          operaciones_realizadas =
            [\<lparr>op_tipo = Some ''nulos'', op_parametros = sin_parametros, afectados = 3\<rparr>,
             \<lparr>op_tipo = Some ''duplicados'', op_parametros = sin_parametros, afectados = 0\<rparr>],
          total_afectados = 3,
          duplicados_guardados = \<lparr>columns = [(''nombre'', Object), (''edad'', Float64)], rows = []\<rparr>\<rparr> \<and>
   df_empty \<lparr>columns = [(''nombre'', Object), (''edad'', Float64)], rows = []\<rparr> \<and>
   \<not> list_ex escribe_duplicados
       (snd (limpiar_dataset_multiple exacta servicios_demo
               \<lparr>dataset_id = Some 7, tipos_limpieza = [op_nulos, op_duplicados]\<rparr>)) \<and>
   snd (limpiar_dataset_multiple exacta servicios_demo
          \<lparr>dataset_id = Some 7, tipos_limpieza = [op_nulos, op_duplicados]\<rparr>) =
     [Select 7, Download ''datasets/datos.csv'',
      Upload ''clean/clean_multi_datos.csv'' [2, 2, 2],
      InsertLimpieza
        \<lparr>limp_dataset_id = 7, tipo_limpieza = ''multiple'',
         parametros_usados =
           [\<lparr>op_tipo = Some ''nulos'', op_parametros = sin_parametros, afectados = 3\<rparr>,
            \<lparr>op_tipo = Some ''duplicados'', op_parametros = sin_parametros, afectados = 0\<rparr>],
         num_registros_afectados = 3,
         ruta_dataset_limpio = ''clean/clean_multi_datos.csv'',
         limp_ruta_duplicados = None, limp_estado = ''Completada''\<rparr>]"
proof -
  let ?r = "\<lparr>dataset_id = Some 7, tipos_limpieza = [op_nulos, op_duplicados]\<rparr>"
  have req: "dataset_id ?r = Some 7" "(7::int) \<noteq> 0" "tipos_limpieza ?r \<noteq> []" by simp_all
  have got: "obtener servicios_demo 7 =
     (Inr (''datasets/datos.csv'', frame_mixto), [Select 7, Download ''datasets/datos.csv''])"
    by code_simp
  have run: "aplicar_limpiezas exacta (inicial frame_mixto) (tipos_limpieza ?r) =
     Inr \<lparr>df = \<lparr>columns = [(''nombre'', Object), (''edad'', Float64)],
                 rows = [[Str ''ana'', Num 30], [Str ''N/A'', Num 0], [Str ''luis'', Num 0]]\<rparr>,
          operaciones_realizadas =
            [\<lparr>op_tipo = Some ''nulos'', op_parametros = sin_parametros, afectados = 3\<rparr>,
             \<lparr>op_tipo = Some ''duplicados'', op_parametros = sin_parametros, afectados = 0\<rparr>],
          total_afectados = 3,
          duplicados_guardados = \<lparr>columns = [(''nombre'', Object), (''edad'', Float64)], rows = []\<rparr>\<rparr>"
    by code_simp
  have emp: "df_empty (duplicados_guardados
     \<lparr>df = \<lparr>columns = [(''nombre'', Object), (''edad'', Float64)],
                 rows = [[Str ''ana'', Num 30], [Str ''N/A'', Num 0], [Str ''luis'', Num 0]]\<rparr>,
          operaciones_realizadas =
            [\<lparr>op_tipo = Some ''nulos'', op_parametros = sin_parametros, afectados = 3\<rparr>,
             \<lparr>op_tipo = Some ''duplicados'', op_parametros = sin_parametros, afectados = 0\<rparr>],
          total_afectados = 3,
          duplicados_guardados = \<lparr>columns = [(''nombre'', Object), (''edad'', Float64)], rows = []\<rparr>\<rparr>)"
    by (simp add: df_empty_def)
  have calls: "snd (limpiar_dataset_multiple exacta servicios_demo ?r) =
     [Select 7, Download ''datasets/datos.csv'',
      Upload ''clean/clean_multi_datos.csv'' [2, 2, 2],
      InsertLimpieza
        \<lparr>limp_dataset_id = 7, tipo_limpieza = ''multiple'',
         parametros_usados =
           [\<lparr>op_tipo = Some ''nulos'', op_parametros = sin_parametros, afectados = 3\<rparr>,
            \<lparr>op_tipo = Some ''duplicados'', op_parametros = sin_parametros, afectados = 0\<rparr>],
         num_registros_afectados = 3,
         ruta_dataset_limpio = ''clean/clean_multi_datos.csv'',
         limp_ruta_duplicados = None, limp_estado = ''Completada''\<rparr>]"
    by code_simp
  from conjunct2[OF empty_side_table_publishes_no_duplicates[OF req got run emp]]
  have "\<not> list_ex escribe_duplicados (snd (limpiar_dataset_multiple exacta servicios_demo ?r))" .
  with req got run emp calls show ?thesis by (simp add: df_empty_def)
qed

subsection \<open>Requests that are rejected\<close>

text \<open>
  C10. A request with no dataset identifier (or the identifier 0, which Python also
  treats as false) or with no operation is answered with the status 400, and no call
  is issued: nothing is queried, downloaded, uploaded or inserted.
\<close>

theorem invalid_request_rejected:
  assumes "dataset_id r = None \<or> dataset_id r = Some 0 \<or> tipos_limpieza r = []"
  shows "limpiar_dataset_multiple ar sv r = (Error400, [])"
  using assms by (auto simp: limpiar_dataset_multiple_def split: option.splits)

theorem invalid_request_rejected_witness:
  "(dataset_id \<lparr>dataset_id = None, tipos_limpieza = [op_nulos]\<rparr> = None \<or>
    dataset_id \<lparr>dataset_id = None, tipos_limpieza = [op_nulos]\<rparr> = Some 0 \<or>
    tipos_limpieza \<lparr>dataset_id = None, tipos_limpieza = [op_nulos]\<rparr> = []) \<and>
   limpiar_dataset_multiple exacta servicios_demo \<lparr>dataset_id = None, tipos_limpieza = [op_nulos]\<rparr>
     = (Error400, []) \<and>
   tipos_limpieza \<lparr>dataset_id = Some 7, tipos_limpieza = []\<rparr> = [] \<and>
   limpiar_dataset_multiple exacta servicios_demo \<lparr>dataset_id = Some 7, tipos_limpieza = []\<rparr>
     = (Error400, [])"
  using invalid_request_rejected[where r = "\<lparr>dataset_id = None, tipos_limpieza = [op_nulos]\<rparr>"
      and ar = exacta and sv = servicios_demo]
    invalid_request_rejected[where r = "\<lparr>dataset_id = Some 7, tipos_limpieza = []\<rparr>"
      and ar = exacta and sv = servicios_demo]
  by simp

subsection \<open>Reading with a fallback encoding\<close>

text \<open>
  Reading a CSV payload (lines 51 to 54, and 146 to 149) tries \<open>utf-8\<close> first and tries
  \<open>latin-1\<close>, once, exactly when the first read raises \<open>UnicodeDecodeError\<close>; the outcome
  is that of the last read.
\<close>

lemma leer_csv_retries:
  "(Latin1 \<in> set (snd (leer_csv sv skip raw)) \<longleftrightarrow> read_csv sv skip UTF8 raw = Inl UnicodeDecodeError) \<and>
   snd (leer_csv sv skip raw) \<in> {[UTF8], [UTF8, Latin1]} \<and>
   fst (leer_csv sv skip raw) = read_csv sv skip (last (snd (leer_csv sv skip raw))) raw"
  by (auto simp: leer_csv_def)

text \<open>
  C9. The branch of \<open>create_dataset\<close> for a name ending in \<open>.json\<close> (line 56) has no
  such handler. In \<open>servicios_demo\<close> the one-byte payload \<open>0xFF\<close> raises
  \<open>UnicodeDecodeError\<close> when read as \<open>utf-8\<close>: uploaded as \<open>datos.json\<close> it fails
  after that single attempt, while the same payload uploaded as \<open>datos.csv\<close>, or read by
  \<open>limpiar_dataset_multiple\<close>, is read a second time as \<open>latin-1\<close> and loads.
\<close>

theorem json_upload_fails_without_retry:
  "read_json servicios_demo [0xFF] = Inl UnicodeDecodeError \<and>
   leer_archivo servicios_demo ''datos.json'' [0xFF] = (Fallo UnicodeDecodeError, [UTF8]) \<and>
   read_csv servicios_demo False UTF8 [0xFF] = Inl UnicodeDecodeError \<and>
   leer_archivo servicios_demo ''datos.csv'' [0xFF] = (Cargado frame_mixto, [UTF8, Latin1]) \<and>
   leer_csv servicios_demo True [0xFF] = (Inr frame_mixto, [UTF8, Latin1])"
  by code_simp

end
